theory Spec2Isabelle
  imports Complex_Main
begin

section \<open>Python values and exceptions\<close>

text \<open>
  The service and the trainer are Python scripts over three libraries (joblib, NumPy with
  scikit-learn, FastAPI with Pydantic). The libraries are not part of the repository: what
  they return is a parameter of the model, and what the scripts do with it is embedded.

  An exception is an instance of Python's class \<open>Exception\<close>: its class and the text
  \<open>str(e)\<close>. Both \<open>except\<close> clauses of the service match on that class.
\<close>

datatype exc_kind =
  FileNotFoundError | ValueError | TypeError | IndexError | OverflowError
  | AttributeError | RuntimeError

datatype py_exception = PyException exc_kind string

fun kind_of :: "py_exception \<Rightarrow> exc_kind" where
  "kind_of (PyException k s) = k"

fun str_of :: "py_exception \<Rightarrow> string" where
  "str_of (PyException k s) = s"

text \<open>
  An element of the array that \<open>model.predict\<close> returns: an integer, a finite float
  (the real number it denotes), a float NaN, a float infinity, or \<open>None\<close> for an object that
  is not a number.
\<close>

datatype pyval = IntVal int | FloatVal real | NanVal | InfVal | NoneVal

text \<open>\<open>prediction == n\<close> for an integer literal \<open>n\<close>.\<close>

fun py_eq :: "pyval \<Rightarrow> int \<Rightarrow> bool" where
  "py_eq (IntVal i) n = (i = n)"
| "py_eq (FloatVal r) n = (r = of_int n)"
| "py_eq NanVal n = False"
| "py_eq InfVal n = False"
| "py_eq NoneVal n = False"

text \<open>\<open>int(prediction)\<close>: truncation towards zero for a float, an exception where Python raises.\<close>

fun py_int :: "pyval \<Rightarrow> py_exception + int" where
  "py_int (IntVal i) = Inr i"
| "py_int (FloatVal r) = Inr (if 0 \<le> r then \<lfloor>r\<rfloor> else \<lceil>r\<rceil>)"
| "py_int NanVal = Inl (PyException ValueError ''cannot convert float NaN to integer'')"
| "py_int InfVal = Inl (PyException OverflowError ''cannot convert float infinity to integer'')"
| "py_int NoneVal = Inl (PyException TypeError ''int() argument must be a number'')"

section \<open>The server: \<open>detection_service.py\<close>\<close>

text \<open>
  The loaded artifact is an object with a method \<open>predict\<close>, which takes an array of samples
  and returns an array of classifications or raises. The type \<open>'f\<close> is the type of a feature:
  the handlers never compute with a feature, they pass it on.
\<close>

datatype 'f model = Model (predict: "'f list list \<Rightarrow> py_exception + pyval list")

text \<open>What a handler does besides returning: it calls the model, and it prints.\<close>

datatype 'f event = ModelPredict "'f list list" | Print string

text \<open>A value in a response dictionary.\<close>

datatype 'f json = JStr string | JInt int | JBool bool | JList "'f list"

text \<open>
  A handler returns a dictionary or raises \<open>HTTPException(status_code, detail)\<close>; a request
  that fails the schema is rejected by the framework before the handler runs.
\<close>

datatype 'f result =
  Return "(string \<times> 'f json) list"
  | HTTPException nat string
  | RequestValidationError

text \<open>The status the framework answers with: 200 for a returned dictionary, 422 for a schema failure.\<close>

fun status_code_of :: "'f result \<Rightarrow> nat" where
  "status_code_of (Return d) = 200"
| "status_code_of (HTTPException c d) = c"
| "status_code_of RequestValidationError = 422"

definition MODEL_PATH :: string where
  "MODEL_PATH = ''anomaly_detector.pkl''"

text \<open>
  Module start (lines 8 to 19): \<open>joblib_load\<close> is the outcome of \<open>joblib.load\<close> on a path. The
  result is the global \<open>model\<close> and what was printed.
\<close>

definition startup :: "(string \<Rightarrow> py_exception + 'f model) \<Rightarrow> 'f model option \<times> 'f event list" where
  "startup joblib_load =
     (case joblib_load MODEL_PATH of
        Inr m \<Rightarrow> (Some m, [Print (''Successfully loaded model from '' @ MODEL_PATH)])
      | Inl e \<Rightarrow>
          if kind_of e = FileNotFoundError
          then (None, [Print (''ERROR: Model file '' @ [CHR 0x27] @ MODEL_PATH @ [CHR 0x27]
                              @ '' not found. Prediction service will be non-functional.'')])
          else (None, [Print (''ERROR: Failed to load model artifact due to: '' @ str_of e)]))"

text \<open>
  The schema \<open>PredictionRequest\<close>: the field \<open>data\<close> is declared with \<open>min_length=2\<close> and
  \<open>max_length=2\<close>, which the framework enforces on the length of the list.
\<close>

definition data_min_length :: nat where
  "data_min_length = 2"

definition data_max_length :: nat where
  "data_max_length = 2"

definition PredictionRequest :: "'f list \<Rightarrow> bool" where
  "PredictionRequest data \<longleftrightarrow> data_min_length \<le> length data \<and> length data \<le> data_max_length"

text \<open>\<open>np.array(request.data).reshape(1, -1)\<close>: one sample, the row of the features.\<close>

definition reshape_1 :: "'f list \<Rightarrow> 'f list list" where
  "reshape_1 data = [data]"

text \<open>
  The body of the \<open>try\<close> block of \<open>predict_anomaly\<close> (lines 48 to 63): the dictionary it
  returns or the exception that leaves it. Its first call is the model's \<open>predict\<close>, once,
  whatever happens after.
\<close>

definition predict_try :: "'f model \<Rightarrow> 'f list \<Rightarrow> py_exception + (string \<times> 'f json) list" where
  "predict_try m data =
     (let input_data = reshape_1 data in
      case predict m input_data of
        Inl e \<Rightarrow> Inl e
      | Inr [] \<Rightarrow> Inl (PyException IndexError ''index 0 is out of bounds for axis 0 with size 0'')
      | Inr (prediction # rest) \<Rightarrow>
          let status = (if py_eq prediction (- 1) then ''Anomaly Detected'' else ''Normal Traffic'') in
          case py_int prediction of
            Inl e \<Rightarrow> Inl e
          | Inr score \<Rightarrow>
              Inr [(''status'', JStr status),
                   (''prediction_score'', JInt score),
                   (''input_data'', JList data),
                   (''message'', JStr ''Prediction successful. Score of -1 indicates an anomaly.'')])"

text \<open>The handler of \<open>POST /predict\<close> on a request that passed the schema.\<close>

definition predict_anomaly :: "'f model option \<Rightarrow> 'f list \<Rightarrow> 'f result \<times> 'f event list" where
  "predict_anomaly model data =
     (case model of
        None \<Rightarrow> (HTTPException 503 ''Model artifact not loaded. Service unavailable.'', [])
      | Some m \<Rightarrow>
          (case predict_try m data of
             Inr d \<Rightarrow> (Return d, [ModelPredict (reshape_1 data)])
           | Inl e \<Rightarrow>
               (HTTPException 500 ''Internal processing error during prediction.'',
                [ModelPredict (reshape_1 data),
                 Print (''Prediction failed due to internal error: '' @ str_of e)])))"

text \<open>The route \<open>POST /predict\<close>: the schema first, then the handler.\<close>

definition post_predict :: "'f model option \<Rightarrow> 'f list \<Rightarrow> 'f result \<times> 'f event list" where
  "post_predict model data =
     (if PredictionRequest data then predict_anomaly model data else (RequestValidationError, []))"

definition app_title :: string where
  "app_title = ''Containerized Anomaly Detection API''"

text \<open>The handler of \<open>GET /health\<close>.\<close>

definition health_check :: "'f model option \<Rightarrow> 'f result" where
  "health_check model =
     (let model_loaded_status = (model \<noteq> None) in
      if \<not> model_loaded_status
      then HTTPException 503 ''Service is running, but the ML model failed to load.''
      else Return [(''status'', JStr ''OK''),
                   (''service'', JStr app_title),
                   (''model_loaded'', JBool model_loaded_status),
                   (''message'', JStr ''Service is running and ML model is operational.'')])"

text \<open>Whether a handler called the model.\<close>

fun is_ModelPredict :: "'f event \<Rightarrow> bool" where
  "is_ModelPredict (ModelPredict x) = True"
| "is_ModelPredict (Print s) = False"

definition model_invoked :: "'f event list \<Rightarrow> bool" where
  "model_invoked evs = list_ex is_ModelPredict evs"

definition reports_model_loaded :: "'f result \<Rightarrow> bool" where
  "reports_model_loaded r =
     (case r of Return d \<Rightarrow> map_of d ''model_loaded'' = Some (JBool True) | _ \<Rightarrow> False)"

section \<open>The trainer: \<open>anomaly_model.py\<close>\<close>

text \<open>
  \<open>numpy.random.RandomState\<close> is a parameter: a generator state of type \<open>'s\<close>, made from a
  seed, and the two draws the script asks for, each returning an array (the list of its rows)
  and the next state. Floats are the real numbers they denote.
\<close>

record 's np_random =
  RandomState :: "nat \<Rightarrow> 's"
  randn :: "'s \<Rightarrow> nat \<Rightarrow> nat \<Rightarrow> real list list \<times> 's"
  uniform :: "'s \<Rightarrow> real \<Rightarrow> real \<Rightarrow> nat \<times> nat \<Rightarrow> real list list \<times> 's"

text \<open>Broadcast arithmetic of a scalar with an array, and \<open>np.r_\<close> on two arrays of rows.\<close>

definition scalar_times :: "real \<Rightarrow> real list list \<Rightarrow> real list list" where
  "scalar_times c A = map (map (\<lambda>x. c * x)) A"

definition plus_scalar :: "real list list \<Rightarrow> real \<Rightarrow> real list list" where
  "plus_scalar A c = map (map (\<lambda>x. x + c)) A"

definition minus_scalar :: "real list list \<Rightarrow> real \<Rightarrow> real list list" where
  "minus_scalar A c = map (map (\<lambda>x. x - c)) A"

definition np_r :: "real list list \<Rightarrow> real list list \<Rightarrow> real list list" where
  "np_r A B = A @ B"

text \<open>An array of \<open>rows\<close> rows and \<open>cols\<close> columns, as \<open>A.shape == (rows, cols)\<close>.\<close>

definition has_shape :: "real list list \<Rightarrow> nat \<Rightarrow> nat \<Rightarrow> bool" where
  "has_shape A rows cols \<longleftrightarrow> length A = rows \<and> list_all (\<lambda>row. length row = cols) A"

text \<open>Line 8: \<open>rng = np.random.RandomState(42)\<close>.\<close>

definition rng :: "'s np_random \<Rightarrow> 's" where
  "rng np = RandomState np 42"

text \<open>Line 11: the first value of \<open>X_normal\<close>, and the state of \<open>rng\<close> after the draw.\<close>

definition X_noise :: "'s np_random \<Rightarrow> real list list" where
  "X_noise np = scalar_times 0.3 (fst (randn np (rng np) 1000 2))"

definition rng_after_randn :: "'s np_random \<Rightarrow> 's" where
  "rng_after_randn np = snd (randn np (rng np) 1000 2)"

text \<open>Line 13: \<open>X_normal\<close> is reassigned from its first value.\<close>

definition X_normal :: "'s np_random \<Rightarrow> real list list" where
  "X_normal np = np_r (plus_scalar (X_noise np) 2) (minus_scalar (X_noise np) 2)"

text \<open>Line 17.\<close>

definition X_abnormal :: "'s np_random \<Rightarrow> real list list" where
  "X_abnormal np = fst (uniform np (rng_after_randn np) (- 6) 6 (20, 2))"

text \<open>Line 20.\<close>

definition X_data :: "'s np_random \<Rightarrow> real list list" where
  "X_data np = np_r (X_normal np) (X_abnormal np)"

text \<open>
  Lines 27 and 28: \<open>fit\<close> stands for scikit-learn's
  \<open>IsolationForest(contamination, random_state).fit(X)\<close>, and the result is the fitted model.
\<close>

definition train :: "'s np_random \<Rightarrow> (real \<Rightarrow> nat \<Rightarrow> real list list \<Rightarrow> 'm) \<Rightarrow> 'm" where
  "train np fit = fit 0.02 42 (X_data np)"

section \<open>Concrete inputs\<close>

text \<open>A classifier in the manner of the trained one: far from both centres is an anomaly.\<close>

definition box_model :: "real model" where
  "box_model = Model (\<lambda>X. Inr (map (\<lambda>row. IntVal (if list_all (\<lambda>x. \<bar>x\<bar> \<le> 3) row then 1 else - 1)) X))"

text \<open>A loaded object whose \<open>predict\<close> returns zeros.\<close>

definition zero_model :: "real model" where
  "zero_model = Model (\<lambda>X. Inr (map (\<lambda>row. IntVal 0) X))"

text \<open>A loaded object whose \<open>predict\<close> raises.\<close>

definition raising_model :: "real model" where
  "raising_model = Model (\<lambda>X. Inl (PyException ValueError ''Input contains NaN.''))"

text \<open>Loaded objects whose \<open>predict\<close> returns an empty array, and an array holding a NaN.\<close>

definition empty_model :: "real model" where
  "empty_model = Model (\<lambda>X. Inr [])"

definition nan_model :: "real model" where
  "nan_model = Model (\<lambda>X. Inr (map (\<lambda>row. NanVal) X))"

text \<open>The outcome of \<open>joblib.load\<close> when no file is there, and when the file is not a pickle.\<close>

definition load_missing :: "string \<Rightarrow> py_exception + real model" where
  "load_missing path =
     Inl (PyException FileNotFoundError (''[Errno 2] No such file or directory: '' @ path))"

definition load_corrupt :: "string \<Rightarrow> py_exception + real model" where
  "load_corrupt path = Inl (PyException RuntimeError ''invalid load key'')"

text \<open>A generator that returns arrays of the shape asked for, filled with a constant.\<close>

definition const_random :: "nat np_random" where
  "const_random =
     \<lparr> RandomState = (\<lambda>seed. seed),
       randn = (\<lambda>s rows cols. (replicate rows (replicate cols 1), Suc s)),
       uniform = (\<lambda>s low high size. (replicate (fst size) (replicate (snd size) low), Suc s)) \<rparr>"

text \<open>A stand-in for the library's \<open>fit\<close> that keeps what it was called with.\<close>

definition fit_arguments :: "real \<Rightarrow> nat \<Rightarrow> real list list \<Rightarrow> real \<times> nat \<times> nat" where
  "fit_arguments contamination random_state X = (contamination, random_state, length X)"

section \<open>Properties of the server\<close>

text \<open>
  C1, as the code has it. On a request of two features with a model loaded, if the model's
  classification of the sample returns 1 or -1, then \<open>predict\<close> answers 200 with that value
  as the score (exactly 1 or -1), the label of that score (-1 is "Anomaly Detected", 1 is
  "Normal Traffic"), and the request's data unchanged.
\<close>

theorem predict_score_label_echo:
  assumes "length data = 2"
    and "predict m [data] = Inr (p # rest)"
    and "py_eq p 1 \<or> py_eq p (- 1)"
  shows "\<exists>score. (score = 1 \<or> score = - 1) \<and> py_eq p score
    \<and> post_predict (Some m) data =
        (Return [(''status'', JStr (if score = - 1 then ''Anomaly Detected'' else ''Normal Traffic'')),
                 (''prediction_score'', JInt score),
                 (''input_data'', JList data),
                 (''message'', JStr ''Prediction successful. Score of -1 indicates an anomaly.'')],
         [ModelPredict [data]])
    \<and> status_code_of (fst (post_predict (Some m) data)) = 200"
proof -
  have valid: "PredictionRequest data"
    using assms(1) by (simp add: PredictionRequest_def data_min_length_def data_max_length_def)
  from assms(3) obtain score where sc: "score = 1 \<or> score = - 1" and eq: "py_eq p score"
    by blast
  have conv: "py_int p = Inr score"
    using eq sc by (cases p) auto
  have lab: "py_eq p (- 1) \<longleftrightarrow> score = - 1"
    using eq sc by (cases p) auto
  have "predict_try m data =
        Inr [(''status'', JStr (if score = - 1 then ''Anomaly Detected'' else ''Normal Traffic'')),
             (''prediction_score'', JInt score),
             (''input_data'', JList data),
             (''message'', JStr ''Prediction successful. Score of -1 indicates an anomaly.'')]"
    using assms(2) conv lab by (simp add: predict_try_def reshape_1_def)
  then have "post_predict (Some m) data =
        (Return [(''status'', JStr (if score = - 1 then ''Anomaly Detected'' else ''Normal Traffic'')),
                 (''prediction_score'', JInt score),
                 (''input_data'', JList data),
                 (''message'', JStr ''Prediction successful. Score of -1 indicates an anomaly.'')],
         [ModelPredict [data]])"
    using valid by (simp add: post_predict_def predict_anomaly_def reshape_1_def)
  with sc eq show ?thesis by auto
qed

theorem predict_score_label_echo_witness:
  "length [- 5, 5 :: real] = 2
   \<and> predict box_model [[- 5, 5]] = Inr [IntVal (- 1)]
   \<and> py_eq (IntVal (- 1)) (- 1)
   \<and> post_predict (Some box_model) [- 5, 5] =
        (Return [(''status'', JStr ''Anomaly Detected''),
                 (''prediction_score'', JInt (- 1)),
                 (''input_data'', JList [- 5, 5]),
                 (''message'', JStr ''Prediction successful. Score of -1 indicates an anomaly.'')],
         [ModelPredict [[- 5, 5]]])"
proof -
  have run: "predict box_model [[- 5, 5 :: real]] = Inr (IntVal (- 1) # [])"
    by (simp add: box_model_def)
  have "py_eq (IntVal (- 1)) 1 \<or> py_eq (IntVal (- 1)) (- 1)"
    by simp
  from predict_score_label_echo [OF _ run this] run show ?thesis
    by auto
qed

text \<open>
  The claim C1 as it is written, for every loaded model, fails: with a loaded object whose
  \<open>predict\<close> raises, a request of two features is answered 500; with one whose \<open>predict\<close>
  returns 0, the score in the answer is 0.
\<close>

theorem loaded_model_not_always_success:
  "length [0, 0 :: real] = 2
   \<and> post_predict (Some raising_model) [0, 0] =
        (HTTPException 500 ''Internal processing error during prediction.'',
         [ModelPredict [[0, 0]],
          Print ''Prediction failed due to internal error: Input contains NaN.''])
   \<and> status_code_of (fst (post_predict (Some raising_model) [0, 0])) \<noteq> 200
   \<and> fst (post_predict (Some zero_model) [0, 0]) =
        Return [(''status'', JStr ''Normal Traffic''),
                (''prediction_score'', JInt 0),
                (''input_data'', JList [0, 0]),
                (''message'', JStr ''Prediction successful. Score of -1 indicates an anomaly.'')]
   \<and> (0 :: int) \<noteq> 1 \<and> (0 :: int) \<noteq> - 1"
  by (simp add: raising_model_def zero_model_def post_predict_def PredictionRequest_def
      data_min_length_def data_max_length_def predict_anomaly_def predict_try_def reshape_1_def)

text \<open>
  C2, as the code has it. On a request of two features with a model loaded, whose
  classification of the sample is neither 1 nor -1, \<open>predict\<close> answers 500 only if the
  conversion of that value to an integer raises; otherwise it answers 200 with the label
  "Normal Traffic" and the converted value as the score.
\<close>

theorem other_value_normal_traffic:
  assumes "length data = 2"
    and "predict m [data] = Inr (p # rest)"
    and "\<not> py_eq p 1" and "\<not> py_eq p (- 1)"
  shows "fst (post_predict (Some m) data) =
    (case py_int p of
       Inr score \<Rightarrow>
         Return [(''status'', JStr ''Normal Traffic''),
                 (''prediction_score'', JInt score),
                 (''input_data'', JList data),
                 (''message'', JStr ''Prediction successful. Score of -1 indicates an anomaly.'')]
     | Inl e \<Rightarrow> HTTPException 500 ''Internal processing error during prediction.'')"
proof -
  have valid: "PredictionRequest data"
    using assms(1) by (simp add: PredictionRequest_def data_min_length_def data_max_length_def)
  show ?thesis
  proof (cases "py_int p")
    case (Inl e)
    then have "predict_try m data = Inl e"
      using assms(2) by (simp add: predict_try_def reshape_1_def)
    with Inl valid show ?thesis
      by (simp add: post_predict_def predict_anomaly_def)
  next
    case (Inr score)
    then have "predict_try m data =
        Inr [(''status'', JStr ''Normal Traffic''),
             (''prediction_score'', JInt score),
             (''input_data'', JList data),
             (''message'', JStr ''Prediction successful. Score of -1 indicates an anomaly.'')]"
      using assms(2,4) by (simp add: predict_try_def reshape_1_def)
    with Inr valid show ?thesis
      by (simp add: post_predict_def predict_anomaly_def)
  qed
qed

theorem other_value_normal_traffic_witness:
  "length [1, 2 :: real] = 2
   \<and> predict zero_model [[1, 2]] = Inr [IntVal 0]
   \<and> \<not> py_eq (IntVal 0) 1 \<and> \<not> py_eq (IntVal 0) (- 1)
   \<and> fst (post_predict (Some zero_model) [1, 2]) =
        Return [(''status'', JStr ''Normal Traffic''),
                (''prediction_score'', JInt 0),
                (''input_data'', JList [1, 2]),
                (''message'', JStr ''Prediction successful. Score of -1 indicates an anomaly.'')]"
proof -
  have run: "predict zero_model [[1, 2 :: real]] = Inr (IntVal 0 # [])"
    by (simp add: zero_model_def)
  have "\<not> py_eq (IntVal 0) 1" and "\<not> py_eq (IntVal 0) (- 1)"
    by simp_all
  from other_value_normal_traffic [OF _ run this] run show ?thesis
    by simp
qed

text \<open>
  The claim C2 as it is written fails: a loaded object whose \<open>predict\<close> returns 0 gets the
  answer 200 with the label "Normal Traffic", not an internal error.
\<close>

theorem other_value_not_internal_error:
  "length [1, 2 :: real] = 2
   \<and> predict zero_model [[1, 2]] = Inr [IntVal 0]
   \<and> \<not> py_eq (IntVal 0) 1 \<and> \<not> py_eq (IntVal 0) (- 1)
   \<and> fst (post_predict (Some zero_model) [1, 2]) =
        Return [(''status'', JStr ''Normal Traffic''),
                (''prediction_score'', JInt 0),
                (''input_data'', JList [1, 2]),
                (''message'', JStr ''Prediction successful. Score of -1 indicates an anomaly.'')]
   \<and> status_code_of (fst (post_predict (Some zero_model) [1, 2])) = 200
   \<and> status_code_of (fst (post_predict (Some zero_model) [1, 2])) \<noteq> 500"
  by (simp add: zero_model_def post_predict_def PredictionRequest_def data_min_length_def
      data_max_length_def predict_anomaly_def predict_try_def reshape_1_def)

text \<open>
  C3. A request whose data has a length other than 2 is answered with the client error 422,
  and the model is not called.
\<close>

theorem wrong_length_rejected:
  assumes "length data \<noteq> 2"
  shows "post_predict model data = (RequestValidationError, [])
    \<and> status_code_of (fst (post_predict model data)) = 422
    \<and> 400 \<le> status_code_of (fst (post_predict model data))
    \<and> status_code_of (fst (post_predict model data)) < 500
    \<and> \<not> model_invoked (snd (post_predict model data))"
proof -
  have "\<not> PredictionRequest data"
    using assms by (simp add: PredictionRequest_def data_min_length_def data_max_length_def)
  then have "post_predict model data = (RequestValidationError, [])"
    by (simp add: post_predict_def)
  then show ?thesis
    by (simp add: model_invoked_def)
qed

theorem wrong_length_rejected_witness:
  "length [1 :: real] \<noteq> 2 \<and> length [1, 2, 3 :: real] \<noteq> 2
   \<and> post_predict (Some box_model) [1] = (RequestValidationError, [])
   \<and> post_predict (Some box_model) [1, 2, 3] = (RequestValidationError, [])"
  using wrong_length_rejected [of "[1 :: real]" "Some box_model"]
    wrong_length_rejected [of "[1, 2, 3 :: real]" "Some box_model"]
  by simp

text \<open>
  C4. With no model loaded, \<open>health\<close> answers 503, and \<open>predict\<close> answers 503 on every request
  of two features, without calling the model.
\<close>

theorem no_model_503:
  assumes "length data = 2"
  shows "status_code_of (health_check (None :: 'f model option)) = 503
    \<and> post_predict (None :: 'f model option) data
        = (HTTPException 503 ''Model artifact not loaded. Service unavailable.'', [])
    \<and> status_code_of (fst (post_predict (None :: 'f model option) data)) = 503
    \<and> \<not> model_invoked (snd (post_predict (None :: 'f model option) data))"
  using assms
  by (simp add: health_check_def post_predict_def PredictionRequest_def data_min_length_def
      data_max_length_def predict_anomaly_def model_invoked_def)

theorem no_model_503_witness:
  "length [0.5, 99 :: real] = 2
   \<and> status_code_of (health_check (None :: real model option)) = 503
   \<and> post_predict (None :: real model option) [0.5, 99]
        = (HTTPException 503 ''Model artifact not loaded. Service unavailable.'', [])"
  using no_model_503 [of "[0.5, 99 :: real]"] by simp

text \<open>
  C5. \<open>health\<close> reports \<open>model_loaded: true\<close> exactly when \<open>predict\<close>, in the same state, does
  not stop with 503; and \<open>health\<close> answers 503 exactly when \<open>predict\<close> does.
\<close>

theorem health_agrees_with_predict:
  "reports_model_loaded (health_check model)
     = (fst (predict_anomaly model data)
          \<noteq> HTTPException 503 ''Model artifact not loaded. Service unavailable.'')
   \<and> reports_model_loaded (health_check model)
     = (status_code_of (fst (predict_anomaly model data)) \<noteq> 503)
   \<and> (status_code_of (health_check model) = 503)
     = (status_code_of (fst (predict_anomaly model data)) = 503)"
proof (cases model)
  case None
  then show ?thesis
    by (simp add: health_check_def predict_anomaly_def reports_model_loaded_def)
next
  case (Some m)
  then show ?thesis
    by (cases "predict_try m data")
      (simp_all add: health_check_def predict_anomaly_def reports_model_loaded_def)
qed

theorem health_agrees_with_predict_witness:
  "reports_model_loaded (health_check (Some box_model))
   \<and> status_code_of (fst (predict_anomaly (Some box_model) [2.1, 2.1])) \<noteq> 503
   \<and> \<not> reports_model_loaded (health_check (None :: real model option))
   \<and> status_code_of (fst (predict_anomaly (None :: real model option) [2.1, 2.1])) = 503"
proof -
  have "reports_model_loaded (health_check (Some box_model))"
    by (simp add: health_check_def reports_model_loaded_def)
  moreover have "\<not> reports_model_loaded (health_check (None :: real model option))"
    by (simp add: health_check_def reports_model_loaded_def)
  ultimately show ?thesis
    using health_agrees_with_predict [of "Some box_model" "[2.1, 2.1]"]
      health_agrees_with_predict [of "None :: real model option" "[2.1, 2.1]"]
    by blast
qed

text \<open>
  C6. Every exception raised in the \<open>try\<close> block of \<open>predict\<close>, by the model's \<open>predict\<close>, by
  taking element 0 of an empty result, or by \<open>int\<close> on that element, is caught and printed on
  the server, and the answer is 500 with one fixed detail text, with nothing of the exception
  in it.
\<close>

theorem exception_generic_500:
  assumes "predict m [data] = Inl e
    \<or> (predict m [data] = Inr []
        \<and> e = PyException IndexError ''index 0 is out of bounds for axis 0 with size 0'')
    \<or> (\<exists>p rest. predict m [data] = Inr (p # rest) \<and> py_int p = Inl e)"
  shows "predict_anomaly (Some m) data =
      (HTTPException 500 ''Internal processing error during prediction.'',
       [ModelPredict [data], Print (''Prediction failed due to internal error: '' @ str_of e)])
    \<and> status_code_of (fst (predict_anomaly (Some m) data)) = 500"
proof -
  have left: "predict_try m data = Inl e"
    using assms
  proof (elim disjE conjE exE)
    assume "predict m [data] = Inl e"
    then show ?thesis
      by (simp add: predict_try_def reshape_1_def)
  next
    assume "predict m [data] = Inr []"
      and "e = PyException IndexError ''index 0 is out of bounds for axis 0 with size 0''"
    then show ?thesis
      by (simp add: predict_try_def reshape_1_def)
  next
    fix p rest
    assume "predict m [data] = Inr (p # rest)" and "py_int p = Inl e"
    then show ?thesis
      by (simp add: predict_try_def reshape_1_def)
  qed
  then have "predict_anomaly (Some m) data =
      (HTTPException 500 ''Internal processing error during prediction.'',
       [ModelPredict [data], Print (''Prediction failed due to internal error: '' @ str_of e)])"
    by (simp add: predict_anomaly_def reshape_1_def)
  then show ?thesis
    by simp
qed

theorem exception_generic_500_witness:
  "predict raising_model [[0, 0]] = Inl (PyException ValueError ''Input contains NaN.'')
   \<and> predict_anomaly (Some raising_model) [0, 0] =
      (HTTPException 500 ''Internal processing error during prediction.'',
       [ModelPredict [[0, 0]],
        Print ''Prediction failed due to internal error: Input contains NaN.''])
   \<and> predict empty_model [[0, 0]] = Inr []
   \<and> predict_anomaly (Some empty_model) [0, 0] =
      (HTTPException 500 ''Internal processing error during prediction.'',
       [ModelPredict [[0, 0]],
        Print ''Prediction failed due to internal error: index 0 is out of bounds for axis 0 with size 0''])
   \<and> predict nan_model [[0, 0]] = Inr [NanVal]
   \<and> py_int NanVal = Inl (PyException ValueError ''cannot convert float NaN to integer'')
   \<and> predict_anomaly (Some nan_model) [0, 0] =
      (HTTPException 500 ''Internal processing error during prediction.'',
       [ModelPredict [[0, 0]],
        Print ''Prediction failed due to internal error: cannot convert float NaN to integer''])"
proof -
  have raised: "predict raising_model [[0, 0]] = Inl (PyException ValueError ''Input contains NaN.'')"
    by (simp add: raising_model_def)
  have empty: "predict empty_model [[0, 0]] = Inr []"
    by (simp add: empty_model_def)
  have nan: "predict nan_model [[0, 0]] = Inr (NanVal # [])"
    by (simp add: nan_model_def)
  have conv: "py_int NanVal = Inl (PyException ValueError ''cannot convert float NaN to integer'')"
    by simp
  have r1: "predict_anomaly (Some raising_model) [0, 0] =
      (HTTPException 500 ''Internal processing error during prediction.'',
       [ModelPredict [[0, 0]],
        Print ''Prediction failed due to internal error: Input contains NaN.''])"
    using exception_generic_500 [of raising_model "[0, 0]"
        "PyException ValueError ''Input contains NaN.''"] raised
    by simp
  have r2: "predict_anomaly (Some empty_model) [0, 0] =
      (HTTPException 500 ''Internal processing error during prediction.'',
       [ModelPredict [[0, 0]],
        Print ''Prediction failed due to internal error: index 0 is out of bounds for axis 0 with size 0''])"
    using exception_generic_500 [of empty_model "[0, 0]"
        "PyException IndexError ''index 0 is out of bounds for axis 0 with size 0''"] empty
    by simp
  have r3: "predict_anomaly (Some nan_model) [0, 0] =
      (HTTPException 500 ''Internal processing error during prediction.'',
       [ModelPredict [[0, 0]],
        Print ''Prediction failed due to internal error: cannot convert float NaN to integer''])"
    using exception_generic_500 [of nan_model "[0, 0]"
        "PyException ValueError ''cannot convert float NaN to integer''"] nan conv
    by simp
  from raised empty nan conv r1 r2 r3 show ?thesis
    by simp
qed

text \<open>
  C7. When loading the artifact raises, whatever the exception, one line is printed, the
  global \<open>model\<close> stays \<open>None\<close>, and the module goes on to serve: \<open>health\<close> answers 503.
\<close>

theorem load_failure_leaves_model_unset:
  assumes "joblib_load MODEL_PATH = Inl e"
  shows "fst (startup joblib_load) = None
    \<and> snd (startup joblib_load) =
        [Print (if kind_of e = FileNotFoundError
                then ''ERROR: Model file '' @ [CHR 0x27] @ MODEL_PATH @ [CHR 0x27]
                     @ '' not found. Prediction service will be non-functional.''
                else ''ERROR: Failed to load model artifact due to: '' @ str_of e)]
    \<and> status_code_of (health_check (fst (startup joblib_load))) = 503"
  using assms by (simp add: startup_def health_check_def)

theorem load_failure_leaves_model_unset_witness:
  "load_missing MODEL_PATH
     = Inl (PyException FileNotFoundError (''[Errno 2] No such file or directory: '' @ MODEL_PATH))
   \<and> fst (startup load_missing) = None
   \<and> load_corrupt MODEL_PATH = Inl (PyException RuntimeError ''invalid load key'')
   \<and> startup load_corrupt
     = (None, [Print ''ERROR: Failed to load model artifact due to: invalid load key''])"
proof -
  have missing: "load_missing MODEL_PATH
      = Inl (PyException FileNotFoundError (''[Errno 2] No such file or directory: '' @ MODEL_PATH))"
    by (simp add: load_missing_def)
  have corrupt: "load_corrupt MODEL_PATH = Inl (PyException RuntimeError ''invalid load key'')"
    by (simp add: load_corrupt_def)
  from load_failure_leaves_model_unset [where joblib_load = load_missing, OF missing]
    load_failure_leaves_model_unset [where joblib_load = load_corrupt, OF corrupt]
    missing corrupt
  show ?thesis
    by (simp add: prod_eq_iff)
qed

text \<open>
  C10. The check for a missing model comes before the \<open>try\<close> block: with no model the answer
  of \<open>predict\<close> is the 503 and never the 500, and an answer of 500 means a model is loaded.
\<close>

theorem unavailable_before_try:
  "(model = None \<longrightarrow>
      predict_anomaly model data
        = (HTTPException 503 ''Model artifact not loaded. Service unavailable.'', [])
      \<and> status_code_of (fst (predict_anomaly model data)) \<noteq> 500)
   \<and> (status_code_of (fst (predict_anomaly model data)) = 500 \<longrightarrow> model \<noteq> None)"
proof (cases model)
  case None
  then show ?thesis
    by (simp add: predict_anomaly_def)
next
  case (Some m)
  then show ?thesis
    by simp
qed

theorem unavailable_before_try_witness:
  "predict_anomaly (None :: real model option) [0, 0]
     = (HTTPException 503 ''Model artifact not loaded. Service unavailable.'', [])
   \<and> status_code_of (fst (predict_anomaly (Some raising_model) [0, 0])) = 500
   \<and> Some raising_model \<noteq> None"
proof -
  have "status_code_of (fst (predict_anomaly (Some raising_model) [0, 0])) = 500"
    by (simp add: predict_anomaly_def predict_try_def raising_model_def)
  with unavailable_before_try [of "None :: real model option" "[0, 0]"]
    unavailable_before_try [of "Some raising_model" "[0, 0]"]
  show ?thesis
    by simp
qed

section \<open>Properties of the trainer\<close>

lemma has_shape_map:
  "has_shape A rows cols \<Longrightarrow> has_shape (map (map f) A) rows cols"
  by (simp add: has_shape_def list_all_iff)

lemma has_shape_append:
  "has_shape A r1 cols \<Longrightarrow> has_shape B r2 cols \<Longrightarrow> has_shape (A @ B) (r1 + r2) cols"
  by (simp add: has_shape_def)

text \<open>
  C9. The generator gives arrays of the shapes asked for. Then the training set is 2000
  majority samples, 1000 around each centre (sample \<open>i\<close> of the first thousand is the draw
  \<open>i\<close> of the standard normal noise times 0.3 plus 2 in both features, sample \<open>1000 + i\<close> is the
  same noise times 0.3 minus 2), followed by the 20 samples of the uniform draw over -6 to 6;
  every sample has two features; and the model is fitted on this set with contamination 0.02
  and seed 42.
\<close>

theorem training_set_structure:
  assumes "has_shape (fst (randn np (rng np) 1000 2)) 1000 2"
    and "has_shape (fst (uniform np (rng_after_randn np) (- 6) 6 (20, 2))) 20 2"
  shows "X_data np = X_normal np @ X_abnormal np
    \<and> has_shape (X_normal np) 2000 2
    \<and> X_abnormal np = fst (uniform np (snd (randn np (RandomState np 42) 1000 2)) (- 6) 6 (20, 2))
    \<and> has_shape (X_abnormal np) 20 2
    \<and> has_shape (X_data np) 2020 2
    \<and> (\<forall>i<1000. X_data np ! i
          = map (\<lambda>x. 0.3 * x + 2) (fst (randn np (RandomState np 42) 1000 2) ! i))
    \<and> (\<forall>i<1000. X_data np ! (1000 + i)
          = map (\<lambda>x. 0.3 * x - 2) (fst (randn np (RandomState np 42) 1000 2) ! i))
    \<and> (\<forall>i<20. X_data np ! (2000 + i) = X_abnormal np ! i)
    \<and> train np fit = fit 0.02 42 (X_data np)"
proof -
  let ?N = "fst (randn np (rng np) 1000 2)"
  have len_N: "length ?N = 1000"
    using assms(1) by (simp add: has_shape_def)
  have noise: "has_shape (X_noise np) 1000 2"
    unfolding X_noise_def scalar_times_def using assms(1) by (rule has_shape_map)
  have len_noise: "length (X_noise np) = 1000"
    using noise by (simp add: has_shape_def)
  have plus: "has_shape (plus_scalar (X_noise np) 2) 1000 2"
    unfolding plus_scalar_def using noise by (rule has_shape_map)
  have minus: "has_shape (minus_scalar (X_noise np) 2) 1000 2"
    unfolding minus_scalar_def using noise by (rule has_shape_map)
  have normal: "has_shape (X_normal np) 2000 2"
    using has_shape_append [OF plus minus] by (simp add: X_normal_def np_r_def)
  have abnormal: "has_shape (X_abnormal np) 20 2"
    using assms(2) by (simp add: X_abnormal_def)
  have data: "X_data np = X_normal np @ X_abnormal np"
    by (simp add: X_data_def np_r_def)
  have all: "has_shape (X_data np) 2020 2"
    using has_shape_append [OF normal abnormal] data by simp
  have len_normal: "length (X_normal np) = 2000"
    using normal by (simp add: has_shape_def)
  have first: "X_data np ! i = map (\<lambda>x. 0.3 * x + 2) (?N ! i)" if "i < 1000" for i
    using that len_N len_noise
    by (simp add: data X_normal_def np_r_def nth_append plus_scalar_def X_noise_def
        scalar_times_def)
  have second: "X_data np ! (1000 + i) = map (\<lambda>x. 0.3 * x - 2) (?N ! i)" if "i < 1000" for i
    using that len_N len_noise
    by (simp add: data X_normal_def np_r_def nth_append plus_scalar_def minus_scalar_def
        X_noise_def scalar_times_def)
  have third: "X_data np ! (2000 + i) = X_abnormal np ! i" for i
    using len_normal by (simp add: data nth_append)
  have call: "X_abnormal np
      = fst (uniform np (snd (randn np (RandomState np 42) 1000 2)) (- 6) 6 (20, 2))"
    by (simp add: X_abnormal_def rng_after_randn_def rng_def)
  have fitted: "train np fit = fit 0.02 42 (X_data np)"
    by (simp add: train_def)
  from data normal call abnormal all first second third fitted show ?thesis
    by (simp add: rng_def)
qed

theorem training_set_structure_witness:
  "has_shape (fst (randn const_random (rng const_random) 1000 2)) 1000 2
   \<and> has_shape (fst (uniform const_random (rng_after_randn const_random) (- 6) 6 (20, 2))) 20 2
   \<and> length (X_data const_random) = 2020
   \<and> X_data const_random ! 0 = [2.3, 2.3]
   \<and> X_data const_random ! 1000 = [- 1.7, - 1.7]
   \<and> X_data const_random ! 2000 = [- 6, - 6]
   \<and> train const_random fit_arguments
        = (0.02, 42, 2020)"
proof -
  have draw: "fst (randn const_random (rng const_random) 1000 2) = replicate 1000 [1, 1]"
    by (simp add: const_random_def numeral_2_eq_2)
  have unif: "fst (uniform const_random (rng_after_randn const_random) (- 6) 6 (20, 2))
      = replicate 20 [- 6, - 6]"
    by (simp add: const_random_def numeral_2_eq_2)
  have h1: "has_shape (fst (randn const_random (rng const_random) 1000 2)) 1000 2"
    by (simp add: draw has_shape_def list_all_iff)
  have h2: "has_shape (fst (uniform const_random (rng_after_randn const_random) (- 6) 6 (20, 2))) 20 2"
    by (simp add: unif has_shape_def list_all_iff)
  note inst = training_set_structure [OF h1 h2,
      of fit_arguments]
  have len: "length (X_data const_random) = 2020"
  proof -
    from inst have "has_shape (X_data const_random) 2020 2"
      by blast
    then show ?thesis by (simp add: has_shape_def)
  qed
  have a: "X_data const_random ! 0 = [2.3, 2.3]"
  proof -
    from inst have "\<forall>i<1000. X_data const_random ! i
        = map (\<lambda>x. 0.3 * x + 2) (fst (randn const_random (RandomState const_random 42) 1000 2) ! i)"
      by blast
    then have "X_data const_random ! 0
        = map (\<lambda>x. 0.3 * x + 2) (fst (randn const_random (RandomState const_random 42) 1000 2) ! 0)"
      by simp
    then show ?thesis using draw by (simp add: rng_def)
  qed
  have b: "X_data const_random ! 1000 = [- 1.7, - 1.7]"
  proof -
    from inst have "\<forall>i<1000. X_data const_random ! (1000 + i)
        = map (\<lambda>x. 0.3 * x - 2) (fst (randn const_random (RandomState const_random 42) 1000 2) ! i)"
      by blast
    from this [rule_format, of 0] show ?thesis
      using draw by (simp add: rng_def)
  qed
  have c: "X_data const_random ! 2000 = [- 6, - 6]"
  proof -
    from inst have "\<forall>i<20. X_data const_random ! (2000 + i) = X_abnormal const_random ! i"
      by blast
    from this [rule_format, of 0] show ?thesis
      using unif by (simp add: X_abnormal_def)
  qed
  have d: "train const_random fit_arguments
        = (0.02, 42, 2020)"
  proof -
    from inst have "train const_random fit_arguments
        = fit_arguments 0.02 42 (X_data const_random)"
      by blast
    then show ?thesis using len by (simp add: fit_arguments_def)
  qed
  from h1 h2 len a b c d show ?thesis by blast
qed

end
